theory Spec2Isabelle
  imports Complex_Main "HOL-Library.Monad_Syntax"
begin

section \<open>The Acceptor of the shared-memory channel\<close>

text \<open>
  A shallow embedding of \<^verbatim>\<open>src/backend/python_bidirectional_ipc_script.py\<close>.
  Python \<^verbatim>\<open>bytes\<close> are lists of 8-bit characters, Python integers are \<open>int\<close> or
  \<open>nat\<close> (the \<^verbatim>\<open>c_size_t\<close> fields never hold a negative number), and the readings of
  \<^verbatim>\<open>time.time()\<close> and the delays given to \<^verbatim>\<open>time.sleep\<close> are real numbers of seconds
  (the rounding of the floating-point numbers of the source is not modelled).
  Output written with \<^verbatim>\<open>print\<close> is not modelled.
\<close>

type_synonym bytes = string

subsection \<open>The control block and its size\<close>

text \<open>
  \<^verbatim>\<open>SharedIPCBidirectional\<close> is a \<^verbatim>\<open>ctypes.Structure\<close> without \<^verbatim>\<open>_pack_\<close>: ctypes lays
  its fields out as the C compiler of the platform does. Every field starts at the next
  multiple of its alignment and the size of the structure is rounded up to the largest
  alignment. The width of \<^verbatim>\<open>c_size_t\<close> is the one parameter of the platform (4 on ILP32,
  8 on LP64); \<^verbatim>\<open>c_int32\<close> is four bytes wide and an array of \<^verbatim>\<open>c_char\<close> has alignment 1.
\<close>

datatype ctype = c_int32 | c_size_t | c_char_array nat

fun ctypes_sizeof :: "nat \<Rightarrow> ctype \<Rightarrow> nat" where
  "ctypes_sizeof S c_int32 = 4"
| "ctypes_sizeof S c_size_t = S"
| "ctypes_sizeof S (c_char_array n) = n"

fun ctypes_alignment :: "nat \<Rightarrow> ctype \<Rightarrow> nat" where
  "ctypes_alignment S c_int32 = 4"
| "ctypes_alignment S c_size_t = S"
| "ctypes_alignment S (c_char_array n) = 1"

definition align_up :: "nat \<Rightarrow> nat \<Rightarrow> nat" where
  "align_up a n = ((n + a - 1) div a) * a"

fun struct_end :: "nat \<Rightarrow> (string \<times> ctype) list \<Rightarrow> nat \<Rightarrow> nat" where
  "struct_end S [] off = off"
| "struct_end S ((name, t) # fields) off =
     struct_end S fields (align_up (ctypes_alignment S t) off + ctypes_sizeof S t)"

definition struct_sizeof :: "nat \<Rightarrow> (string \<times> ctype) list \<Rightarrow> nat" where
  "struct_sizeof S fields =
     align_up (foldr max (map (\<lambda>(name, t). ctypes_alignment S t) fields) 1)
       (struct_end S fields 0)"

definition SharedIPCBidirectional_fields :: "nat \<Rightarrow> (string \<times> ctype) list" where
  "SharedIPCBidirectional_fields S =
     [(''c_to_a_command'', c_int32),
      (''c_to_a_data_len'', c_size_t),
      (''a_to_c_status'', c_int32),
      (''a_to_c_data_len'', c_size_t),
      (''defined_c2a_buffer_size'', c_size_t),
      (''defined_a2c_buffer_size'', c_size_t),
      (''_padding1'',
         c_char_array (128 - ctypes_sizeof S c_int32 * 2 - ctypes_sizeof S c_size_t * 4))]"

definition sizeof_SharedIPCBidirectional :: "nat \<Rightarrow> nat" where
  "sizeof_SharedIPCBidirectional S = struct_sizeof S (SharedIPCBidirectional_fields S)"

text \<open>The typed view \<^verbatim>\<open>shm_struct\<close> of the control block: its six fields.\<close>

record shm_struct =
  c_to_a_command :: int
  c_to_a_data_len :: nat
  a_to_c_status :: int
  a_to_c_data_len :: nat
  defined_c2a_buffer_size :: nat
  defined_a2c_buffer_size :: nat

subsection \<open>Platform, environment and state\<close>

text \<open>
  What the script takes from the host: the width of \<^verbatim>\<open>c_size_t\<close>, whether \<^verbatim>\<open>libc.close\<close>
  was found (\<^verbatim>\<open>c_close\<close> is \<^verbatim>\<open>None\<close> otherwise), and the outcome of the block marked
  "Example Processing", which calls numpy and OpenCV and never looks at the bytes it was
  given: \<open>Some\<close> of the response, or \<open>None\<close> when the block raises.
\<close>

record platform =
  sizeof_size_t :: nat
  c_close_available :: bool
  example_processing :: "bytes option"

definition SHM_CONTROL_BLOCK_SIZE :: "platform \<Rightarrow> nat" where
  "SHM_CONTROL_BLOCK_SIZE P = sizeof_SharedIPCBidirectional (sizeof_size_t P)"

text \<open>
  The operating system as the startup code sees it: the descriptor returned by each
  call of \<^verbatim>\<open>shm_open\<close> (\<open>-1\<close> on failure), whether \<^verbatim>\<open>os.fstat\<close> and \<^verbatim>\<open>mmap.mmap\<close> raise,
  the bytes of the shared-memory object, whether \<^verbatim>\<open>from_buffer\<close> raises \<^verbatim>\<open>TypeError\<close>,
  the fields that the leading bytes of the object decode to, and the clock at startup.
\<close>

record os =
  shm_open :: "nat \<Rightarrow> int"
  fstat_raises :: bool
  mmap_raises :: bool
  segment :: bytes
  from_buffer_type_error :: bool
  control_block :: shm_struct
  initial_clock :: real

text \<open>
  The Creator, the signals and the clock act while the Acceptor sleeps. One step of the
  environment says which fields the Creator stored meanwhile, whether a signal arrived,
  and what \<^verbatim>\<open>time.time()\<close> reads afterwards; it also says whether the next write into the
  mapping raises and whether the next \<^verbatim>\<open>flush\<close> raises \<^verbatim>\<open>OSError\<close>.
\<close>

record env_step =
  peer_command :: "int option"
  peer_data_len :: "nat option"
  peer_status :: "int option"
  signal_received :: bool
  clock_reading :: real
  write_raises :: bool
  flush_raises :: bool

datatype event =
    Shm_Open nat
  | Sleep real
  | Mmap_Read nat nat
  | Example_Processing
  | Mmap_Write nat bytes
  | Mmap_Flush bool
  | Store_a_to_c_data_len nat
  | Store_a_to_c_status int
  | Store_c_to_a_command int
  | Mmap_Close
  | Mmap_Close_BufferError
  | Fd_Close int

text \<open>
  The globals of the script once the segment is mapped, the clock, the number of
  environment steps taken so far, and the log of what the Acceptor did to the operating
  system and to the shared memory. \<open>mmap_obj\<close> holds the bytes of the whole mapping;
  \<^verbatim>\<open>mmap_obj.size()\<close>, the size of the object behind the mapping, is its length, since the
  whole object was mapped. The bytes under the control block are read and written through
  \<open>shm\<close> only, and every other access of the script starts at or after
  \<^verbatim>\<open>SHM_CONTROL_BLOCK_SIZE\<close>. \<open>struct_is_copy\<close> holds when \<^verbatim>\<open>shm_struct\<close> came from
  \<^verbatim>\<open>from_buffer_copy\<close>: then it is a snapshot that the Creator's stores do not reach.
\<close>

record world =
  shm :: shm_struct
  mmap_obj :: bytes
  shm_fd :: int
  running :: bool
  ACTUAL_C2A_BUFFER_SIZE :: nat
  ACTUAL_A2C_BUFFER_SIZE :: nat
  struct_is_copy :: bool
  now :: real
  tick :: nat
  trace :: "event list"

definition peer_stores :: "env_step \<Rightarrow> shm_struct \<Rightarrow> shm_struct" where
  "peer_stores e s =
     s\<lparr>c_to_a_command := (case peer_command e of None \<Rightarrow> c_to_a_command s | Some c \<Rightarrow> c),
       c_to_a_data_len := (case peer_data_len e of None \<Rightarrow> c_to_a_data_len s | Some n \<Rightarrow> n),
       a_to_c_status := (case peer_status e of None \<Rightarrow> a_to_c_status s | Some v \<Rightarrow> v)\<rparr>"

text \<open>\<^verbatim>\<open>time.sleep\<close> inside the polling phase: the environment takes its next step.\<close>

definition sleep :: "(nat \<Rightarrow> env_step) \<Rightarrow> world \<Rightarrow> world" where
  "sleep env w =
     (let e = env (tick w) in
      w\<lparr>shm := (if struct_is_copy w then shm w else peer_stores e (shm w)),
        running := (running w \<and> \<not> signal_received e),
        now := clock_reading e,
        tick := Suc (tick w)\<rparr>)"

definition log :: "event \<Rightarrow> world \<Rightarrow> world" where
  "log e w = w\<lparr>trace := trace w @ [e]\<rparr>"

definition store_a_to_c_data_len :: "nat \<Rightarrow> world \<Rightarrow> world" where
  "store_a_to_c_data_len n w =
     log (Store_a_to_c_data_len n) (w\<lparr>shm := (shm w)\<lparr>a_to_c_data_len := n\<rparr>\<rparr>)"

definition store_a_to_c_status :: "int \<Rightarrow> world \<Rightarrow> world" where
  "store_a_to_c_status v w =
     log (Store_a_to_c_status v) (w\<lparr>shm := (shm w)\<lparr>a_to_c_status := v\<rparr>\<rparr>)"

definition store_c_to_a_command :: "int \<Rightarrow> world \<Rightarrow> world" where
  "store_c_to_a_command c w =
     log (Store_c_to_a_command c) (w\<lparr>shm := (shm w)\<lparr>c_to_a_command := c\<rparr>\<rparr>)"

subsection \<open>Reading the request\<close>

text \<open>
  \<^verbatim>\<open>get_buffer_view\<close>: the slice of the mapping, or \<^verbatim>\<open>None\<close> when the mapping is empty
  (an empty \<^verbatim>\<open>mmap\<close> is false in Python) or the range ends beyond it.
\<close>

definition get_buffer_view :: "nat \<Rightarrow> nat \<Rightarrow> world \<Rightarrow> bytes option \<times> world" where
  "get_buffer_view offset len w =
     (if mmap_obj w \<noteq> [] \<and> offset + len \<le> length (mmap_obj w)
      then (Some (take len (drop offset (mmap_obj w))), log (Mmap_Read offset len) w)
      else (None, w))"

definition process_data_from_creator ::
  "platform \<Rightarrow> nat \<Rightarrow> world \<Rightarrow> bytes option \<times> world" where
  "process_data_from_creator P data_len w =
     (if data_len > 0 then
        if data_len > ACTUAL_C2A_BUFFER_SIZE w then (Some ''Error: Creator data too large'', w)
        else
          (case get_buffer_view (SHM_CONTROL_BLOCK_SIZE P) data_len w of
             (None, w1) \<Rightarrow> (Some ''Error: Failed to get C2A buffer view'', w1)
           | (Some input_bytes, w1) \<Rightarrow>
               (case example_processing P of
                  Some response_data \<Rightarrow> (Some response_data, log Example_Processing w1)
                | None \<Rightarrow> (Some ''Error during Python processing'', log Example_Processing w1)))
      else (Some ''Acknowledged empty Creator message'', w))"

subsection \<open>Sending the response\<close>

text \<open>The wait of the branch for a response larger than the A2C buffer (line 173).\<close>

partial_function (option) wait_oversize :: "(nat \<Rightarrow> env_step) \<Rightarrow> world \<Rightarrow> world option" where
  "wait_oversize env w =
     (if a_to_c_status (shm w) \<noteq> 0 \<and> running w then wait_oversize env (sleep env w)
      else Some w)"

text \<open>
  The busy-wait for the Creator (lines 180 to 184); the result says whether the loop
  ended because the status was 0 (\<open>True\<close>) or by one of its two \<^verbatim>\<open>return False\<close>.
\<close>

partial_function (option) wait_for_creator ::
  "(nat \<Rightarrow> env_step) \<Rightarrow> real \<Rightarrow> world \<Rightarrow> (bool \<times> world) option" where
  "wait_for_creator env wait_start_time w =
     (if a_to_c_status (shm w) \<noteq> 0 then
        if \<not> running w then Some (False, w)
        else if now w - wait_start_time > 5 then Some (False, w)
        else wait_for_creator env wait_start_time (sleep env w)
      else Some (True, w))"

text \<open>The wait of the exception handler (lines 222 to 226), bounded by half a second.\<close>

partial_function (option) wait_error_signal ::
  "(nat \<Rightarrow> env_step) \<Rightarrow> real \<Rightarrow> world \<Rightarrow> world option" where
  "wait_error_signal env wait_start_time w =
     (if a_to_c_status (shm w) \<noteq> 0 then
        if \<not> running w then Some w
        else if now w - wait_start_time > 1 / 2 then Some w
        else wait_error_signal env wait_start_time (sleep env w)
      else Some w)"

definition mmap_write :: "nat \<Rightarrow> bytes \<Rightarrow> world \<Rightarrow> world" where
  "mmap_write offset data_bytes w =
     log (Mmap_Write offset data_bytes)
       (w\<lparr>mmap_obj := take offset (mmap_obj w) @ data_bytes
                       @ drop (offset + length data_bytes) (mmap_obj w)\<rparr>)"

definition mmap_flush :: "(nat \<Rightarrow> env_step) \<Rightarrow> world \<Rightarrow> world" where
  "mmap_flush env w = log (Mmap_Flush (\<not> flush_raises (env (tick w)))) w"

definition signal_error :: "world \<Rightarrow> world" where
  "signal_error w = store_a_to_c_status (- 1) (store_a_to_c_data_len 0 w)"

text \<open>
  \<^verbatim>\<open>send_data_to_creator\<close>. Its first test is on the two globals: \<^verbatim>\<open>shm_struct\<close> is an
  object and therefore true, and \<^verbatim>\<open>mmap_obj\<close> is false only when it is empty. Inside the
  \<^verbatim>\<open>try\<close>, \<^verbatim>\<open>seek\<close> and \<^verbatim>\<open>write\<close> stay inside the mapping after the test before them,
  so only a failure of the operating system can raise there; the environment decides.
\<close>

definition send_data_to_creator ::
  "platform \<Rightarrow> (nat \<Rightarrow> env_step) \<Rightarrow> bytes \<Rightarrow> world \<Rightarrow> (bool \<times> world) option" where
  "send_data_to_creator P env data_bytes w =
     (if mmap_obj w = [] then Some (False, w)
      else
        let data_len = length data_bytes;
            a2c_buffer_offset = SHM_CONTROL_BLOCK_SIZE P + ACTUAL_C2A_BUFFER_SIZE w
        in
        if data_len > ACTUAL_A2C_BUFFER_SIZE w then
          do {
            w1 \<leftarrow> wait_oversize env w;
            if \<not> running w1 then Some (False, w1)
            else Some (False, signal_error w1)
          }
        else
          do {
            (ready, w1) \<leftarrow> wait_for_creator env (now w) w;
            if \<not> ready then Some (False, w1)
            else if length (mmap_obj w1) < a2c_buffer_offset + data_len then Some (False, w1)
            else if write_raises (env (tick w1)) then
              do {
                w2 \<leftarrow> wait_error_signal env (now w1) w1;
                Some (False,
                  if running w2 \<and> a_to_c_status (shm w2) = 0 then signal_error w2 else w2)
              }
            else
              Some (True,
                store_a_to_c_status 1
                  (store_a_to_c_data_len data_len
                    (mmap_flush env (mmap_write a2c_buffer_offset data_bytes w1))))
          })"

subsection \<open>The polling loop\<close>

text \<open>
  The body of \<^verbatim>\<open>while running\<close>; the Boolean says whether it left the loop by \<^verbatim>\<open>break\<close>.
  Nothing that the body calls raises in this model, so its handler for \<^verbatim>\<open>Exception\<close> has
  no branch here.
\<close>

definition iteration ::
  "platform \<Rightarrow> (nat \<Rightarrow> env_step) \<Rightarrow> world \<Rightarrow> (bool \<times> world) option" where
  "iteration P env w =
     (let command = c_to_a_command (shm w) in
      if command = 1 then
        (case process_data_from_creator P (c_to_a_data_len (shm w)) w of
           (response_bytes, w1) \<Rightarrow>
             do {
               (sent, w2) \<leftarrow>
                 (case response_bytes of
                    Some r \<Rightarrow> send_data_to_creator P env r w1
                  | None \<Rightarrow>
                      send_data_to_creator P env
                        ''Error during Creator data processing in Acceptor'' w1);
               Some (False, store_c_to_a_command 0 w2)
             })
      else if command = 99 then Some (True, (store_c_to_a_command 0 w)\<lparr>running := False\<rparr>)
      else if command = 0 then Some (False, sleep env w)
      else Some (False, sleep env (store_c_to_a_command 0 w)))"

partial_function (option) polling_loop ::
  "platform \<Rightarrow> (nat \<Rightarrow> env_step) \<Rightarrow> world \<Rightarrow> world option" where
  "polling_loop P env w =
     (if running w then
        Option.bind (iteration P env w)
          (\<lambda>r. if fst r then Some (snd r) else polling_loop P env (snd r))
      else Some w)"

text \<open>
  The \<^verbatim>\<open>finally\<close> block. \<^verbatim>\<open>mmap_obj.close()\<close> raises \<^verbatim>\<open>BufferError\<close> as long as a view
  exported from the mapping is alive, and \<^verbatim>\<open>from_buffer\<close> keeps one for the lifetime of
  \<^verbatim>\<open>shm_struct\<close>; the block catches the exception and goes on to close the descriptor.
\<close>

definition close_fd :: "platform \<Rightarrow> int \<Rightarrow> event list" where
  "close_fd P fd = (if c_close_available P \<and> fd \<noteq> - 1 then [Fd_Close fd] else [])"

definition cleanup :: "platform \<Rightarrow> world \<Rightarrow> event list" where
  "cleanup P w =
     trace w
     @ (if mmap_obj w \<noteq> [] then
          [if struct_is_copy w then Mmap_Close else Mmap_Close_BufferError]
        else [])
     @ close_fd P (shm_fd w)"

subsection \<open>Startup\<close>

text \<open>
  The attachment loop \<^verbatim>\<open>for attempt in range(attach_attempts)\<close>: \<open>None\<close> stands for
  \<^verbatim>\<open>sys.exit(1)\<close>. Were the range ever exhausted, \<^verbatim>\<open>shm_fd\<close> would still be \<open>-1\<close>.
\<close>

definition attach_attempts :: nat where
  "attach_attempts = 5"

fun attach_loop ::
  "os \<Rightarrow> nat list \<Rightarrow> real \<Rightarrow> event list \<Rightarrow> int option \<times> event list" where
  "attach_loop os [] attach_delay tr = (Some (- 1), tr)"
| "attach_loop os (attempt # rest) attach_delay tr =
     (let fd = shm_open os attempt; tr1 = tr @ [Shm_Open attempt] in
      if fd \<noteq> - 1 then (Some fd, tr1)
      else if attempt = attach_attempts - 1 then (None, tr1)
      else attach_loop os rest (attach_delay * (3 / 2)) (tr1 @ [Sleep attach_delay]))"

definition attach :: "os \<Rightarrow> int option \<times> event list" where
  "attach os = attach_loop os [0 ..< attach_attempts] (1 / 10) []"

datatype exit = Exit int "event list"

text \<open>
  The first part of \<^verbatim>\<open>main_loop\<close>, up to the installation of the signal handlers:
  either the process ends (\<open>Inl\<close>, with its exit status and what it did) or the polling
  loop starts in the state returned. An exception that nothing catches ends the process
  with status 1: \<^verbatim>\<open>from_buffer\<close> raises \<^verbatim>\<open>ValueError\<close> on a mapping shorter than the
  structure, and only \<^verbatim>\<open>TypeError\<close> is caught there; \<^verbatim>\<open>mmap_obj.close()\<close> raises
  \<^verbatim>\<open>BufferError\<close> as long as a view exported from the mapping is alive, and
  \<^verbatim>\<open>from_buffer\<close> keeps one for the lifetime of \<^verbatim>\<open>shm_struct\<close>.
\<close>

definition startup :: "platform \<Rightarrow> os \<Rightarrow> exit + world" where
  "startup P os =
     (case attach os of
        (None, tr) \<Rightarrow> Inl (Exit 1 tr)
      | (Some fd, tr) \<Rightarrow>
          if fd = - 1 \<or> fstat_raises os then Inl (Exit 1 (tr @ close_fd P fd))
          else if mmap_raises os \<or> segment os = [] then Inl (Exit 1 (tr @ close_fd P fd))
          else if length (segment os) < SHM_CONTROL_BLOCK_SIZE P then
            (if from_buffer_type_error os
             then Inl (Exit 1 (tr @ [Mmap_Close] @ close_fd P fd))
             else Inl (Exit 1 tr))
          else
            let w = \<lparr>shm = control_block os, mmap_obj = segment os, shm_fd = fd,
                     running = True,
                     ACTUAL_C2A_BUFFER_SIZE = defined_c2a_buffer_size (control_block os),
                     ACTUAL_A2C_BUFFER_SIZE = defined_a2c_buffer_size (control_block os),
                     struct_is_copy = from_buffer_type_error os,
                     now = initial_clock os, tick = 0, trace = tr\<rparr>
            in
            if ACTUAL_C2A_BUFFER_SIZE w \<le> 0 \<or> ACTUAL_A2C_BUFFER_SIZE w \<le> 0 then
              (if struct_is_copy w
               then Inl (Exit 1 (tr @ [Mmap_Close] @ close_fd P fd))
               else Inl (Exit 1 (tr @ [Mmap_Close_BufferError])))
            else Inr w)"

text \<open>
  The polling loop, the \<^verbatim>\<open>finally\<close> block and the end of the script, which gives exit
  status 0; \<open>None\<close> when the loop never ends.
\<close>

definition run_polling :: "platform \<Rightarrow> (nat \<Rightarrow> env_step) \<Rightarrow> world \<Rightarrow> exit option" where
  "run_polling P env w =
     do {
       w' \<leftarrow> polling_loop P env w;
       Some (Exit 0 (cleanup P w'))
     }"

definition main_loop :: "platform \<Rightarrow> os \<Rightarrow> (nat \<Rightarrow> env_step) \<Rightarrow> exit option" where
  "main_loop P os env =
     (case startup P os of
        Inl e \<Rightarrow> Some e
      | Inr w \<Rightarrow> run_polling P env w)"

section \<open>Notions used in the statements\<close>

text \<open>The state after \<open>n\<close> steps of the environment.\<close>

fun sleeps :: "(nat \<Rightarrow> env_step) \<Rightarrow> nat \<Rightarrow> world \<Rightarrow> world" where
  "sleeps env 0 w = w"
| "sleeps env (Suc n) w = sleeps env n (sleep env w)"

text \<open>
  The condition that ends the wait of \<^verbatim>\<open>send_data_to_creator\<close> for a response: the Creator
  has set the status to 0, or a shutdown was requested, or, for a response that fits the
  A2C buffer, more than five seconds have passed since the wait began.
\<close>

definition wait_over :: "bytes \<Rightarrow> real \<Rightarrow> world \<Rightarrow> bool" where
  "wait_over data_bytes wait_start_time w =
     (a_to_c_status (shm w) = 0 \<or> \<not> running w
      \<or> (length data_bytes \<le> ACTUAL_A2C_BUFFER_SIZE w \<and> now w - wait_start_time > 5))"

text \<open>What a successful \<^verbatim>\<open>send_data_to_creator\<close> does after its wait.\<close>

definition write_response :: "platform \<Rightarrow> (nat \<Rightarrow> env_step) \<Rightarrow> bytes \<Rightarrow> world \<Rightarrow> world" where
  "write_response P env data_bytes w =
     store_a_to_c_status 1
       (store_a_to_c_data_len (length data_bytes)
         (mmap_flush env
           (mmap_write (SHM_CONTROL_BLOCK_SIZE P + ACTUAL_C2A_BUFFER_SIZE w) data_bytes w)))"

text \<open>What the Acceptor logged between two states.\<close>

definition new_events :: "world \<Rightarrow> world \<Rightarrow> event list" where
  "new_events w w' = drop (length (trace w)) (trace w')"

text \<open>
  The sizes that stay as they are once the polling loop has started: the two buffer sizes
  in the globals of the script, the two in the control block, and the length of the
  mapping.
\<close>

definition sizes_read :: "world \<Rightarrow> nat \<times> nat \<times> nat \<times> nat \<times> nat" where
  "sizes_read w = (ACTUAL_C2A_BUFFER_SIZE w, ACTUAL_A2C_BUFFER_SIZE w,
     defined_c2a_buffer_size (shm w), defined_a2c_buffer_size (shm w), length (mmap_obj w))"

text \<open>The control block after the stores of a list of events, one after the other.\<close>

fun apply_event :: "event \<Rightarrow> shm_struct \<Rightarrow> shm_struct" where
  "apply_event (Store_a_to_c_data_len n) s = s\<lparr>a_to_c_data_len := n\<rparr>"
| "apply_event (Store_a_to_c_status v) s = s\<lparr>a_to_c_status := v\<rparr>"
| "apply_event (Store_c_to_a_command c) s = s\<lparr>c_to_a_command := c\<rparr>"
| "apply_event e s = s"

definition shm_after :: "event list \<Rightarrow> shm_struct \<Rightarrow> shm_struct" where
  "shm_after evs s = fold apply_event evs s"

text \<open>
  \<open>iterations P env k w\<close> is the state in which the polling loop starts its next pass
  after \<open>k\<close> passes that began with \<^verbatim>\<open>running\<close> true and did not leave the loop.
\<close>

fun iterations :: "platform \<Rightarrow> (nat \<Rightarrow> env_step) \<Rightarrow> nat \<Rightarrow> world \<Rightarrow> world option" where
  "iterations P env 0 w = Some w"
| "iterations P env (Suc k) w =
     (if running w then
        Option.bind (iteration P env w)
          (\<lambda>r. if fst r then None else iterations P env k (snd r))
      else None)"

text \<open>
  What the attachment loop logs for \<open>k\<close> failed attempts: each call of \<^verbatim>\<open>shm_open\<close> is
  followed by a sleep, the first of a tenth of a second and each next one half as long
  again.
\<close>

definition backoff_events :: "nat \<Rightarrow> event list" where
  "backoff_events k = concat (map (\<lambda>i. [Shm_Open i, Sleep (1 / 10 * (3 / 2) ^ i)]) [0 ..< k])"

text \<open>The events that are calls of \<^verbatim>\<open>shm_open\<close>.\<close>

fun is_shm_open :: "event \<Rightarrow> bool" where
  "is_shm_open (Shm_Open i) = True"
| "is_shm_open e = False"

text \<open>The two A2C fields of the state that a pass of the loop ends in.\<close>

definition a2c_fields :: "(bool \<times> world) option \<Rightarrow> (int \<times> nat) option" where
  "a2c_fields r = map_option (\<lambda>x. (a_to_c_status (shm (snd x)), a_to_c_data_len (shm (snd x)))) r"

subsection \<open>Concrete inputs\<close>

text \<open>
  An LP64 host whose processing block returns the 400 bytes of a 10 by 10 RGBA image; an
  environment in which the Creator stores nothing, no signal arrives, nothing fails and
  the clock advances by 5 ms with every sleep; a state of the polling phase over a
  mapping of 136 bytes of control block and the two buffers, given by the command, the
  length of the request, the A2C status and the two buffer sizes; and a shared-memory
  object that opens at the first attempt, given by the fields of its control block.
\<close>

definition example_platform :: platform where
  "example_platform =
     \<lparr>sizeof_size_t = 8, c_close_available = True,
      example_processing = Some (replicate 400 (CHR ''x''))\<rparr>"

definition silent_env :: "nat \<Rightarrow> env_step" where
  "silent_env k =
     \<lparr>peer_command = None, peer_data_len = None, peer_status = None,
      signal_received = False, clock_reading = real (Suc k) * (5 / 1000),
      write_raises = False, flush_raises = False\<rparr>"

definition example_world :: "int \<Rightarrow> nat \<Rightarrow> int \<Rightarrow> nat \<Rightarrow> nat \<Rightarrow> world" where
  "example_world command data_len status c2a_size a2c_size =
     \<lparr>shm = \<lparr>c_to_a_command = command, c_to_a_data_len = data_len,
             a_to_c_status = status, a_to_c_data_len = 0,
             defined_c2a_buffer_size = c2a_size, defined_a2c_buffer_size = a2c_size\<rparr>,
      mmap_obj = replicate (136 + c2a_size + a2c_size) (CHR 0x00),
      shm_fd = 3, running = True,
      ACTUAL_C2A_BUFFER_SIZE = c2a_size, ACTUAL_A2C_BUFFER_SIZE = a2c_size,
      struct_is_copy = False, now = 0, tick = 0, trace = [Shm_Open 0]\<rparr>"

definition example_os :: "nat \<Rightarrow> nat \<Rightarrow> os" where
  "example_os c2a_size a2c_size =
     \<lparr>shm_open = (\<lambda>attempt. 3), fstat_raises = False, mmap_raises = False,
      segment = replicate (136 + c2a_size + a2c_size) (CHR 0x00),
      from_buffer_type_error = False,
      control_block = \<lparr>c_to_a_command = 0, c_to_a_data_len = 0,
             a_to_c_status = 0, a_to_c_data_len = 0,
             defined_c2a_buffer_size = c2a_size, defined_a2c_buffer_size = a2c_size\<rparr>,
      initial_clock = 0\<rparr>"

section \<open>Properties\<close>

subsection \<open>The waits and the response\<close>

lemma sleep_keeps [simp]:
  "trace (sleep env w) = trace w"
  "mmap_obj (sleep env w) = mmap_obj w"
  "shm_fd (sleep env w) = shm_fd w"
  "ACTUAL_C2A_BUFFER_SIZE (sleep env w) = ACTUAL_C2A_BUFFER_SIZE w"
  "ACTUAL_A2C_BUFFER_SIZE (sleep env w) = ACTUAL_A2C_BUFFER_SIZE w"
  "struct_is_copy (sleep env w) = struct_is_copy w"
  "tick (sleep env w) = Suc (tick w)"
  "a_to_c_data_len (shm (sleep env w)) = a_to_c_data_len (shm w)"
  "defined_c2a_buffer_size (shm (sleep env w)) = defined_c2a_buffer_size (shm w)"
  "defined_a2c_buffer_size (shm (sleep env w)) = defined_a2c_buffer_size (shm w)"
  by (simp_all add: sleep_def Let_def peer_stores_def)

lemma sleeps_keeps [simp]:
  "trace (sleeps env n w) = trace w"
  "mmap_obj (sleeps env n w) = mmap_obj w"
  "shm_fd (sleeps env n w) = shm_fd w"
  "ACTUAL_C2A_BUFFER_SIZE (sleeps env n w) = ACTUAL_C2A_BUFFER_SIZE w"
  "ACTUAL_A2C_BUFFER_SIZE (sleeps env n w) = ACTUAL_A2C_BUFFER_SIZE w"
  "struct_is_copy (sleeps env n w) = struct_is_copy w"
  "tick (sleeps env n w) = tick w + n"
  "a_to_c_data_len (shm (sleeps env n w)) = a_to_c_data_len (shm w)"
  "defined_c2a_buffer_size (shm (sleeps env n w)) = defined_c2a_buffer_size (shm w)"
  "defined_a2c_buffer_size (shm (sleeps env n w)) = defined_a2c_buffer_size (shm w)"
  by (induction n arbitrary: w; simp)+

lemma sleeps_Suc_right: "sleeps env (Suc n) w = sleep env (sleeps env n w)"
  by (induction n arbitrary: w) simp_all

lemma wait_oversize_None:
  assumes "\<And>n. a_to_c_status (shm (sleeps env n w)) \<noteq> 0 \<and> running (sleeps env n w)"
  shows "wait_oversize env w = None"
proof (rule ccontr)
  assume "wait_oversize env w \<noteq> None"
  then obtain w' where r: "wait_oversize env w = Some w'" by auto
  have "\<not> (\<forall>n. a_to_c_status (shm (sleeps env n w)) \<noteq> 0 \<and> running (sleeps env n w))"
    using r
  proof (induction rule: wait_oversize.raw_induct[rotated 1, consumes 1])
    case (1 f env w w')
    show ?case
    proof (cases "a_to_c_status (shm w) \<noteq> 0 \<and> running w")
      case True
      with 1 have "\<not> (\<forall>n. a_to_c_status (shm (sleeps env n (sleep env w))) \<noteq> 0 \<and> running (sleeps env n (sleep env w)))"
        by simp
      then obtain n where "\<not> (a_to_c_status (shm (sleeps env (Suc n) w)) \<noteq> 0 \<and> running (sleeps env (Suc n) w))"
        by auto
      then show ?thesis by blast
    next
      case False
      then have "\<not> (a_to_c_status (shm (sleeps env 0 w)) \<noteq> 0 \<and> running (sleeps env 0 w))" by simp
      then show ?thesis by blast
    qed
  qed
  with assms show False by blast
qed


lemma wait_oversize_returns:
  "a_to_c_status (shm (sleeps env n w)) = 0 \<or> \<not> running (sleeps env n w) \<Longrightarrow>
   \<exists>w'. wait_oversize env w = Some w'"
proof (induction n arbitrary: w)
  case 0
  then show ?case by (subst wait_oversize.simps) auto
next
  case (Suc n)
  show ?case
  proof (cases "a_to_c_status (shm w) \<noteq> 0 \<and> running w")
    case True
    from Suc.IH[of "sleep env w"] Suc.prems
    obtain w' where "wait_oversize env (sleep env w) = Some w'" by auto
    with True show ?thesis by (subst wait_oversize.simps) simp
  next
    case False
    then show ?thesis by (subst wait_oversize.simps) auto
  qed
qed

lemma wait_oversize_Some:
  assumes "wait_oversize env w = Some w'"
  shows "\<exists>n. w' = sleeps env n w \<and> (a_to_c_status (shm w') = 0 \<or> \<not> running w')"
  using assms
proof (induction rule: wait_oversize.raw_induct[rotated 1, consumes 1])
  case (1 f env w w')
  show ?case
  proof (cases "a_to_c_status (shm w) \<noteq> 0 \<and> running w")
    case True
    with 1(2) have "f env (sleep env w) = Some w'" by simp
    from 1(1)[OF this] obtain n where "w' = sleeps env n (sleep env w)"
      "a_to_c_status (shm w') = 0 \<or> \<not> running w'" by blast
    then have "w' = sleeps env (Suc n) w \<and> (a_to_c_status (shm w') = 0 \<or> \<not> running w')"
      by simp
    then show ?thesis by blast
  next
    case False
    with 1 have "w' = sleeps env 0 w \<and> (a_to_c_status (shm w') = 0 \<or> \<not> running w')"
      by auto
    then show ?thesis by blast
  qed
qed

lemma wait_for_creator_ready:
  "a_to_c_status (shm w) = 0 \<Longrightarrow> wait_for_creator env t0 w = Some (True, w)"
  by (subst wait_for_creator.simps) simp

lemma wait_for_creator_returns:
  "a_to_c_status (shm (sleeps env n w)) = 0 \<or> \<not> running (sleeps env n w)
     \<or> now (sleeps env n w) - t0 > 5 \<Longrightarrow>
   \<exists>r. wait_for_creator env t0 w = Some r"
proof (induction n arbitrary: w)
  case 0
  then show ?case by (subst wait_for_creator.simps) auto
next
  case (Suc n)
  from Suc.IH[of "sleep env w"] Suc.prems
  obtain r where "wait_for_creator env t0 (sleep env w) = Some r" by auto
  then show ?case by (subst wait_for_creator.simps) auto
qed

lemma wait_for_creator_Some:
  assumes "wait_for_creator env t0 w = Some (ready, w')"
  shows "\<exists>n. w' = sleeps env n w \<and> (ready \<longleftrightarrow> a_to_c_status (shm w') = 0)"
  using assms
proof (induction env t0 w "(ready, w')" rule: wait_for_creator.raw_induct[rotated 1, consumes 1])
  case (1 f env t0 w)
  show ?case
  proof (cases "a_to_c_status (shm w) \<noteq> 0 \<and> running w \<and> \<not> now w - t0 > 5")
    case True
    with 1(2) have "f env t0 (sleep env w) = Some (ready, w')" by simp
    from 1(1)[OF this] obtain n where "w' = sleeps env n (sleep env w)"
      "ready \<longleftrightarrow> a_to_c_status (shm w') = 0" by blast
    then have "w' = sleeps env (Suc n) w \<and> (ready \<longleftrightarrow> a_to_c_status (shm w') = 0)"
      by simp
    then show ?thesis by blast
  next
    case False
    with 1 have "w' = sleeps env 0 w \<and> (ready \<longleftrightarrow> a_to_c_status (shm w') = 0)"
      by (auto split: if_splits)
    then show ?thesis by blast
  qed
qed

lemma wait_error_signal_ready:
  "a_to_c_status (shm w) = 0 \<Longrightarrow> wait_error_signal env t0 w = Some w"
  by (subst wait_error_signal.simps) simp


lemma send_cases:
  assumes "send_data_to_creator P env d w = Some (sent, w')"
  obtains
    (uninitialised) "mmap_obj w = []" "\<not> sent" "w' = w"
  | (oversize_stopped) n where "mmap_obj w \<noteq> []" "length d > ACTUAL_A2C_BUFFER_SIZE w"
      "\<not> sent" "w' = sleeps env n w" "\<not> running w'"
  | (oversize_signalled) n where "mmap_obj w \<noteq> []" "length d > ACTUAL_A2C_BUFFER_SIZE w"
      "\<not> sent" "w' = signal_error (sleeps env n w)"
      "a_to_c_status (shm (sleeps env n w)) = 0" "running (sleeps env n w)"
  | (gave_up) n where "mmap_obj w \<noteq> []" "length d \<le> ACTUAL_A2C_BUFFER_SIZE w"
      "\<not> sent" "w' = sleeps env n w" "a_to_c_status (shm w') \<noteq> 0"
  | (too_small) n where "mmap_obj w \<noteq> []" "length d \<le> ACTUAL_A2C_BUFFER_SIZE w"
      "\<not> sent" "w' = sleeps env n w" "a_to_c_status (shm w') = 0"
      "length (mmap_obj w) < SHM_CONTROL_BLOCK_SIZE P + ACTUAL_C2A_BUFFER_SIZE w + length d"
  | (write_failed) n where "mmap_obj w \<noteq> []" "length d \<le> ACTUAL_A2C_BUFFER_SIZE w"
      "\<not> sent" "a_to_c_status (shm (sleeps env n w)) = 0"
      "w' = (if running (sleeps env n w) then signal_error (sleeps env n w)
             else sleeps env n w)"
      "SHM_CONTROL_BLOCK_SIZE P + ACTUAL_C2A_BUFFER_SIZE w + length d \<le> length (mmap_obj w)"
  | (written) n where "mmap_obj w \<noteq> []" "length d \<le> ACTUAL_A2C_BUFFER_SIZE w"
      "sent" "a_to_c_status (shm (sleeps env n w)) = 0"
      "w' = write_response P env d (sleeps env n w)"
      "SHM_CONTROL_BLOCK_SIZE P + ACTUAL_C2A_BUFFER_SIZE w + length d \<le> length (mmap_obj w)"
proof (cases "mmap_obj w = []")
  case True
  with assms have "\<not> sent" "w' = w" by (auto simp: send_data_to_creator_def)
  with True show ?thesis by (rule uninitialised)
next
  case ne: False
  show ?thesis
  proof (cases "length d > ACTUAL_A2C_BUFFER_SIZE w")
    case big: True
    with ne assms obtain w1 where w1: "wait_oversize env w = Some w1"
      and r: "(if \<not> running w1 then Some (False, w1) else Some (False, signal_error w1))
              = Some (sent, w')"
      by (auto simp: send_data_to_creator_def Let_def split: bind_splits)
    from wait_oversize_Some[OF w1] obtain n where n: "w1 = sleeps env n w"
      "a_to_c_status (shm w1) = 0 \<or> \<not> running w1" by blast
    show ?thesis
    proof (cases "running w1")
      case True
      with r n have "\<not> sent" "w' = signal_error (sleeps env n w)"
        "a_to_c_status (shm (sleeps env n w)) = 0" "running (sleeps env n w)" by auto
      with ne big show ?thesis by (rule oversize_signalled)
    next
      case False
      with r n have "\<not> sent" "w' = sleeps env n w" "\<not> running w'" by auto
      with ne big show ?thesis by (rule oversize_stopped)
    qed
  next
    case False
    then have small: "length d \<le> ACTUAL_A2C_BUFFER_SIZE w" by simp
    let ?off = "SHM_CONTROL_BLOCK_SIZE P + ACTUAL_C2A_BUFFER_SIZE w"
    let ?k = "\<lambda>ready w1.
               if \<not> ready then Some (False, w1)
               else if length (mmap_obj w1) < ?off + length d then Some (False, w1)
               else if write_raises (env (tick w1)) then
                 Option.bind (wait_error_signal env (now w1) w1)
                   (\<lambda>w2. Some (False,
                      if running w2 \<and> a_to_c_status (shm w2) = 0 then signal_error w2 else w2))
               else Some (True,
                 store_a_to_c_status 1
                   (store_a_to_c_data_len (length d)
                     (mmap_flush env (mmap_write ?off d w1))))"
    from ne small assms
    have eq: "Option.bind (wait_for_creator env (now w) w) (\<lambda>(ready, w1). ?k ready w1)
              = Some (sent, w')"
      by (simp add: send_data_to_creator_def Let_def)
    then obtain ready w1 where w1: "wait_for_creator env (now w) w = Some (ready, w1)"
      and r: "?k ready w1 = Some (sent, w')"
      by (cases "wait_for_creator env (now w) w") auto
    from wait_for_creator_Some[OF w1] obtain n where n: "w1 = sleeps env n w"
      "ready \<longleftrightarrow> a_to_c_status (shm w1) = 0" by blast
    show ?thesis
    proof (cases ready)
      case False
      with r n have "\<not> sent" "w' = sleeps env n w" "a_to_c_status (shm w') \<noteq> 0" by auto
      with ne small show ?thesis by (rule gave_up)
    next
      case rdy: True
      show ?thesis
      proof (cases "length (mmap_obj w1) < ?off + length d")
        case True
        with rdy r n have "\<not> sent" "w' = sleeps env n w" "a_to_c_status (shm w') = 0"
          "length (mmap_obj w) < ?off + length d" by auto
        with ne small show ?thesis by (rule too_small)
      next
        case fits: False
        show ?thesis
        proof (cases "write_raises (env (tick w1))")
          case True
          with rdy fits r n have "\<not> sent" "a_to_c_status (shm (sleeps env n w)) = 0"
            "w' = (if running (sleeps env n w) then signal_error (sleeps env n w)
                   else sleeps env n w)" "?off + length d \<le> length (mmap_obj w)"
            by (auto simp: wait_error_signal_ready)
          with ne small show ?thesis by (rule write_failed)
        next
          case False
          with rdy fits r n have "sent" "a_to_c_status (shm (sleeps env n w)) = 0"
            "w' = write_response P env d (sleeps env n w)"
            "?off + length d \<le> length (mmap_obj w)" by (auto simp: write_response_def)
          with ne small show ?thesis by (rule written)
        qed
      qed
    qed
  qed
qed

lemma send_ready_written:
  assumes "mmap_obj w \<noteq> []" "a_to_c_status (shm w) = 0"
    "length d \<le> ACTUAL_A2C_BUFFER_SIZE w"
    "SHM_CONTROL_BLOCK_SIZE P + ACTUAL_C2A_BUFFER_SIZE w + length d \<le> length (mmap_obj w)"
    "\<not> write_raises (env (tick w))"
  shows "send_data_to_creator P env d w = Some (True, write_response P env d w)"
  using assms
  by (simp add: send_data_to_creator_def Let_def wait_for_creator_ready write_response_def)

lemma send_ready_oversize:
  assumes "mmap_obj w \<noteq> []" "a_to_c_status (shm w) = 0" "running w"
    "length d > ACTUAL_A2C_BUFFER_SIZE w"
  shows "send_data_to_creator P env d w = Some (False, signal_error w)"
proof -
  from assms(2) have "wait_oversize env w = Some w"
    by (subst wait_oversize.simps) simp
  with assms show ?thesis by (simp add: send_data_to_creator_def Let_def)
qed

lemma send_ready_too_small:
  assumes "mmap_obj w \<noteq> []" "a_to_c_status (shm w) = 0"
    "length d \<le> ACTUAL_A2C_BUFFER_SIZE w"
    "length (mmap_obj w) < SHM_CONTROL_BLOCK_SIZE P + ACTUAL_C2A_BUFFER_SIZE w + length d"
  shows "send_data_to_creator P env d w = Some (False, w)"
  using assms
  by (simp add: send_data_to_creator_def Let_def wait_for_creator_ready)

lemma send_returns:
  assumes "wait_over d (now w) (sleeps env n w)"
  shows "\<exists>sent w'. send_data_to_creator P env d w = Some (sent, w')"
proof (cases "mmap_obj w = []")
  case True
  then show ?thesis by (auto simp: send_data_to_creator_def)
next
  case ne: False
  show ?thesis
  proof (cases "length d > ACTUAL_A2C_BUFFER_SIZE w")
    case True
    with assms have "a_to_c_status (shm (sleeps env n w)) = 0 \<or> \<not> running (sleeps env n w)"
      by (auto simp: wait_over_def)
    from wait_oversize_returns[OF this] obtain w1 where "wait_oversize env w = Some w1" ..
    with ne True show ?thesis by (auto simp: send_data_to_creator_def Let_def)
  next
    case False
    from assms have "a_to_c_status (shm (sleeps env n w)) = 0 \<or> \<not> running (sleeps env n w)
      \<or> now (sleeps env n w) - now w > 5"
      by (auto simp: wait_over_def)
    from wait_for_creator_returns[OF this] obtain ready w1
      where w1: "wait_for_creator env (now w) w = Some (ready, w1)" by force
    from wait_for_creator_Some[OF w1] have "ready \<longleftrightarrow> a_to_c_status (shm w1) = 0" by blast
    with ne False w1 show ?thesis
      by (auto simp: send_data_to_creator_def Let_def wait_error_signal_ready)
  qed
qed

lemma send_oversize_never_returns:
  assumes "mmap_obj w \<noteq> []" "length d > ACTUAL_A2C_BUFFER_SIZE w"
    "\<And>n. a_to_c_status (shm (sleeps env n w)) \<noteq> 0 \<and> running (sleeps env n w)"
  shows "send_data_to_creator P env d w = None"
  using assms(1,2) wait_oversize_None[of env w, OF assms(3)]
  by (simp add: send_data_to_creator_def Let_def)

lemma silent_sleeps:
  "a_to_c_status (shm (sleeps silent_env n w)) = a_to_c_status (shm w)
   \<and> running (sleeps silent_env n w) = running w"
  by (induction n arbitrary: w) (simp_all add: sleep_def Let_def silent_env_def peer_stores_def)

lemma example_control_block_size [simp]: "SHM_CONTROL_BLOCK_SIZE example_platform = 136"
  by (simp add: SHM_CONTROL_BLOCK_SIZE_def example_platform_def sizeof_SharedIPCBidirectional_def
      SharedIPCBidirectional_fields_def struct_sizeof_def align_up_def)

lemma example_world_simps [simp]:
  "shm (example_world c n v a b) =
     \<lparr>c_to_a_command = c, c_to_a_data_len = n, a_to_c_status = v, a_to_c_data_len = 0,
      defined_c2a_buffer_size = a, defined_a2c_buffer_size = b\<rparr>"
  "mmap_obj (example_world c n v a b) = replicate (136 + a + b) (CHR 0x00)"
  "shm_fd (example_world c n v a b) = 3"
  "running (example_world c n v a b)"
  "ACTUAL_C2A_BUFFER_SIZE (example_world c n v a b) = a"
  "ACTUAL_A2C_BUFFER_SIZE (example_world c n v a b) = b"
  "\<not> struct_is_copy (example_world c n v a b)"
  "now (example_world c n v a b) = 0"
  "tick (example_world c n v a b) = 0"
  "trace (example_world c n v a b) = [Shm_Open 0]"
  by (simp_all add: example_world_def)

lemma silent_env_simps [simp]:
  "peer_command (silent_env k) = None"
  "peer_data_len (silent_env k) = None"
  "peer_status (silent_env k) = None"
  "\<not> signal_received (silent_env k)"
  "clock_reading (silent_env k) = real (Suc k) * (5 / 1000)"
  "\<not> write_raises (silent_env k)"
  "\<not> flush_raises (silent_env k)"
  by (simp_all add: silent_env_def)

lemma store_simps [simp]:
  "shm (store_a_to_c_data_len n w) = (shm w)\<lparr>a_to_c_data_len := n\<rparr>"
  "shm (store_a_to_c_status v w) = (shm w)\<lparr>a_to_c_status := v\<rparr>"
  "shm (store_c_to_a_command c w) = (shm w)\<lparr>c_to_a_command := c\<rparr>"
  "trace (store_a_to_c_data_len n w) = trace w @ [Store_a_to_c_data_len n]"
  "trace (store_a_to_c_status v w) = trace w @ [Store_a_to_c_status v]"
  "trace (store_c_to_a_command c w) = trace w @ [Store_c_to_a_command c]"
  "mmap_obj (store_a_to_c_data_len n w) = mmap_obj w"
  "mmap_obj (store_a_to_c_status v w) = mmap_obj w"
  "mmap_obj (store_c_to_a_command c w) = mmap_obj w"
  "shm (mmap_write off d w) = shm w"
  "trace (mmap_write off d w) = trace w @ [Mmap_Write off d]"
  "mmap_obj (mmap_write off d w) = take off (mmap_obj w) @ d @ drop (off + length d) (mmap_obj w)"
  "shm (mmap_flush env w) = shm w"
  "trace (mmap_flush env w) = trace w @ [Mmap_Flush (\<not> flush_raises (env (tick w)))]"
  "mmap_obj (mmap_flush env w) = mmap_obj w"
  "tick (mmap_write off d w) = tick w"
  by (simp_all add: store_a_to_c_data_len_def store_a_to_c_status_def store_c_to_a_command_def
      mmap_write_def mmap_flush_def log_def)

lemma signal_error_simps [simp]:
  "shm (signal_error w) = (shm w)\<lparr>a_to_c_data_len := 0, a_to_c_status := - 1\<rparr>"
  "trace (signal_error w) = trace w @ [Store_a_to_c_data_len 0, Store_a_to_c_status (- 1)]"
  "mmap_obj (signal_error w) = mmap_obj w"
  by (simp_all add: signal_error_def)

lemma write_response_simps [simp]:
  "shm (write_response P env d w) = (shm w)\<lparr>a_to_c_data_len := length d, a_to_c_status := 1\<rparr>"
  "trace (write_response P env d w) =
     trace w @ [Mmap_Write (SHM_CONTROL_BLOCK_SIZE P + ACTUAL_C2A_BUFFER_SIZE w) d,
                Mmap_Flush (\<not> flush_raises (env (tick w))),
                Store_a_to_c_data_len (length d), Store_a_to_c_status 1]"
  "mmap_obj (write_response P env d w) =
     take (SHM_CONTROL_BLOCK_SIZE P + ACTUAL_C2A_BUFFER_SIZE w) (mmap_obj w) @ d
     @ drop (SHM_CONTROL_BLOCK_SIZE P + ACTUAL_C2A_BUFFER_SIZE w + length d) (mmap_obj w)"
  by (simp_all add: write_response_def)

lemma iteration_data_ready:
  assumes "c_to_a_command (shm w) = 1"
    and "process_data_from_creator P (c_to_a_data_len (shm w)) w = (response_bytes, w1)"
  shows "iteration P env w =
     Option.bind
       (send_data_to_creator P env
          (case response_bytes of Some r \<Rightarrow> r
           | None \<Rightarrow> ''Error during Creator data processing in Acceptor'') w1)
       (\<lambda>r. Some (False, store_c_to_a_command 0 (snd r)))"
  using assms
  by (cases response_bytes)
    (auto simp: iteration_def Let_def split: bind_splits prod.splits)

lemma process_oversize:
  "n > ACTUAL_C2A_BUFFER_SIZE w \<Longrightarrow>
   process_data_from_creator P n w = (Some ''Error: Creator data too large'', w)"
  by (simp add: process_data_from_creator_def)

lemma process_empty:
  "process_data_from_creator P 0 w = (Some ''Acknowledged empty Creator message'', w)"
  by (simp add: process_data_from_creator_def)

lemma send_events:
  assumes "send_data_to_creator P env d w = Some (sent, w')"
  shows "trace w' = trace w @ new_events w w'"
    and "new_events w w' = []
       \<or> new_events w w' = [Store_a_to_c_data_len 0, Store_a_to_c_status (- 1)]
       \<or> (\<exists>b. new_events w w' =
             [Mmap_Write (SHM_CONTROL_BLOCK_SIZE P + ACTUAL_C2A_BUFFER_SIZE w) d, Mmap_Flush b,
              Store_a_to_c_data_len (length d), Store_a_to_c_status 1]
           \<and> SHM_CONTROL_BLOCK_SIZE P + ACTUAL_C2A_BUFFER_SIZE w + length d \<le> length (mmap_obj w)
           \<and> length d \<le> ACTUAL_A2C_BUFFER_SIZE w \<and> sent)"
  using assms by (cases rule: send_cases; simp add: new_events_def)+

lemma new_events_append: "trace w' = trace w @ evs \<Longrightarrow> new_events w w' = evs"
  by (simp add: new_events_def)

lemma send_keeps_mmap_length:
  assumes "send_data_to_creator P env d w = Some (sent, w')"
  shows "length (mmap_obj w') = length (mmap_obj w)"
  using assms by (cases rule: send_cases) auto

lemma send_written:
  assumes "send_data_to_creator P env d w = Some (True, w')"
  obtains n where "a_to_c_status (shm (sleeps env n w)) = 0"
    "w' = write_response P env d (sleeps env n w)"
    "length d \<le> ACTUAL_A2C_BUFFER_SIZE w"
    "SHM_CONTROL_BLOCK_SIZE P + ACTUAL_C2A_BUFFER_SIZE w + length d \<le> length (mmap_obj w)"
  using assms by (cases rule: send_cases) auto

lemma log_simps [simp]:
  "shm (log e w) = shm w" "trace (log e w) = trace w @ [e]" "mmap_obj (log e w) = mmap_obj w"
  "now (log e w) = now w" "tick (log e w) = tick w" "running (log e w) = running w"
  "ACTUAL_C2A_BUFFER_SIZE (log e w) = ACTUAL_C2A_BUFFER_SIZE w"
  "ACTUAL_A2C_BUFFER_SIZE (log e w) = ACTUAL_A2C_BUFFER_SIZE w"
  "struct_is_copy (log e w) = struct_is_copy w" "shm_fd (log e w) = shm_fd w"
  by (simp_all add: log_def)

lemma process_cases:
  assumes "process_data_from_creator P n w = (response_bytes, w1)"
  obtains
    (empty) "n = 0" "response_bytes = Some ''Acknowledged empty Creator message''" "w1 = w"
  | (too_large) "n > ACTUAL_C2A_BUFFER_SIZE w"
      "response_bytes = Some ''Error: Creator data too large''" "w1 = w"
  | (no_view) "0 < n" "n \<le> ACTUAL_C2A_BUFFER_SIZE w"
      "mmap_obj w = [] \<or> length (mmap_obj w) < SHM_CONTROL_BLOCK_SIZE P + n"
      "response_bytes = Some ''Error: Failed to get C2A buffer view''" "w1 = w"
  | (processed) x where "0 < n" "n \<le> ACTUAL_C2A_BUFFER_SIZE w"
      "SHM_CONTROL_BLOCK_SIZE P + n \<le> length (mmap_obj w)"
      "example_processing P = Some x" "response_bytes = Some x"
      "w1 = log Example_Processing (log (Mmap_Read (SHM_CONTROL_BLOCK_SIZE P) n) w)"
  | (raised) "0 < n" "n \<le> ACTUAL_C2A_BUFFER_SIZE w"
      "SHM_CONTROL_BLOCK_SIZE P + n \<le> length (mmap_obj w)"
      "example_processing P = None" "response_bytes = Some ''Error during Python processing''"
      "w1 = log Example_Processing (log (Mmap_Read (SHM_CONTROL_BLOCK_SIZE P) n) w)"
proof (cases "n = 0")
  case True
  with assms have "response_bytes = Some ''Acknowledged empty Creator message''" "w1 = w"
    by (simp_all add: process_data_from_creator_def)
  with True show ?thesis by (rule empty)
next
  case pos: False
  show ?thesis
  proof (cases "n > ACTUAL_C2A_BUFFER_SIZE w")
    case True
    with pos assms have "response_bytes = Some ''Error: Creator data too large''" "w1 = w"
      by (simp_all add: process_data_from_creator_def)
    with True show ?thesis by (rule too_large)
  next
    case small: False
    show ?thesis
    proof (cases "mmap_obj w \<noteq> [] \<and> SHM_CONTROL_BLOCK_SIZE P + n \<le> length (mmap_obj w)")
      case False
      with pos small assms
      have "response_bytes = Some ''Error: Failed to get C2A buffer view''" "w1 = w"
        by (simp_all add: process_data_from_creator_def get_buffer_view_def)
      moreover from False
      have "mmap_obj w = [] \<or> length (mmap_obj w) < SHM_CONTROL_BLOCK_SIZE P + n" by auto
      moreover from pos small have "0 < n" "n \<le> ACTUAL_C2A_BUFFER_SIZE w" by simp_all
      ultimately show ?thesis using no_view by blast
    next
      case view: True
      from pos small have n: "0 < n" "n \<le> ACTUAL_C2A_BUFFER_SIZE w" by simp_all
      from view have v: "SHM_CONTROL_BLOCK_SIZE P + n \<le> length (mmap_obj w)" by simp
      show ?thesis
      proof (cases "example_processing P")
        case None
        with pos small view assms
        have "response_bytes = Some ''Error during Python processing''"
          "w1 = log Example_Processing (log (Mmap_Read (SHM_CONTROL_BLOCK_SIZE P) n) w)"
          by (simp_all add: process_data_from_creator_def get_buffer_view_def)
        with n v None show ?thesis by (rule raised)
      next
        case (Some x)
        with pos small view assms
        have "response_bytes = Some x"
          "w1 = log Example_Processing (log (Mmap_Read (SHM_CONTROL_BLOCK_SIZE P) n) w)"
          by (simp_all add: process_data_from_creator_def get_buffer_view_def)
        with n v Some show ?thesis by (rule processed)
      qed
    qed
  qed
qed

lemma process_events:
  assumes "process_data_from_creator P n w = (response_bytes, w1)"
  shows "trace w1 = trace w @ new_events w w1"
    and "new_events w w1 = []
         \<or> new_events w w1 = [Mmap_Read (SHM_CONTROL_BLOCK_SIZE P) n, Example_Processing]"
    and "shm w1 = shm w" "mmap_obj w1 = mmap_obj w" "now w1 = now w" "tick w1 = tick w"
      "running w1 = running w" "ACTUAL_C2A_BUFFER_SIZE w1 = ACTUAL_C2A_BUFFER_SIZE w"
      "ACTUAL_A2C_BUFFER_SIZE w1 = ACTUAL_A2C_BUFFER_SIZE w"
  using assms by (cases rule: process_cases; simp add: new_events_def)+

lemma store_keeps [simp]:
  "ACTUAL_C2A_BUFFER_SIZE (store_a_to_c_data_len n w) = ACTUAL_C2A_BUFFER_SIZE w"
  "ACTUAL_A2C_BUFFER_SIZE (store_a_to_c_data_len n w) = ACTUAL_A2C_BUFFER_SIZE w"
  "ACTUAL_C2A_BUFFER_SIZE (store_a_to_c_status v w) = ACTUAL_C2A_BUFFER_SIZE w"
  "ACTUAL_A2C_BUFFER_SIZE (store_a_to_c_status v w) = ACTUAL_A2C_BUFFER_SIZE w"
  "ACTUAL_C2A_BUFFER_SIZE (store_c_to_a_command c w) = ACTUAL_C2A_BUFFER_SIZE w"
  "ACTUAL_A2C_BUFFER_SIZE (store_c_to_a_command c w) = ACTUAL_A2C_BUFFER_SIZE w"
  "ACTUAL_C2A_BUFFER_SIZE (mmap_write off d w) = ACTUAL_C2A_BUFFER_SIZE w"
  "ACTUAL_A2C_BUFFER_SIZE (mmap_write off d w) = ACTUAL_A2C_BUFFER_SIZE w"
  "ACTUAL_C2A_BUFFER_SIZE (mmap_flush env w) = ACTUAL_C2A_BUFFER_SIZE w"
  "ACTUAL_A2C_BUFFER_SIZE (mmap_flush env w) = ACTUAL_A2C_BUFFER_SIZE w"
  "ACTUAL_C2A_BUFFER_SIZE (signal_error w) = ACTUAL_C2A_BUFFER_SIZE w"
  "ACTUAL_A2C_BUFFER_SIZE (signal_error w) = ACTUAL_A2C_BUFFER_SIZE w"
  "ACTUAL_C2A_BUFFER_SIZE (write_response P env d w) = ACTUAL_C2A_BUFFER_SIZE w"
  "ACTUAL_A2C_BUFFER_SIZE (write_response P env d w) = ACTUAL_A2C_BUFFER_SIZE w"
  "shm_fd (store_c_to_a_command c w) = shm_fd w"
  "struct_is_copy (store_c_to_a_command c w) = struct_is_copy w"
  "running (store_c_to_a_command c w) = running w"
  by (simp_all add: store_a_to_c_data_len_def store_a_to_c_status_def store_c_to_a_command_def
      mmap_write_def mmap_flush_def signal_error_def write_response_def)

lemma send_keeps_sizes:
  assumes "send_data_to_creator P env d w = Some (sent, w')"
  shows "sizes_read w' = sizes_read w"
  using assms by (cases rule: send_cases) (auto simp: sizes_read_def)

lemma iteration_keeps_sizes:
  assumes "iteration P env w = Some (b, w')"
  shows "sizes_read w' = sizes_read w"
proof (cases "c_to_a_command (shm w) = 1")
  case True
  obtain rb w1 where p: "process_data_from_creator P (c_to_a_data_len (shm w)) w = (rb, w1)"
    by (cases "process_data_from_creator P (c_to_a_data_len (shm w)) w")
  from iteration_data_ready[OF True p] assms obtain r sent w2
    where s: "send_data_to_creator P env r w1 = Some (sent, w2)"
      and w': "w' = store_c_to_a_command 0 w2"
    by (auto split: bind_splits)
  from process_events[OF p] have "sizes_read w1 = sizes_read w" by (simp add: sizes_read_def)
  with send_keeps_sizes[OF s] w' show ?thesis by (simp add: sizes_read_def)
next
  case False
  with assms show ?thesis
    by (auto simp: iteration_def Let_def sizes_read_def split: if_splits)
qed

lemma startup_world:
  assumes "startup P os = Inr w"
  shows "ACTUAL_C2A_BUFFER_SIZE w = defined_c2a_buffer_size (shm w)"
    and "ACTUAL_A2C_BUFFER_SIZE w = defined_a2c_buffer_size (shm w)"
    and "0 < ACTUAL_C2A_BUFFER_SIZE w" and "0 < ACTUAL_A2C_BUFFER_SIZE w"
    and "mmap_obj w \<noteq> []" and "running w"
    and "SHM_CONTROL_BLOCK_SIZE P \<le> length (mmap_obj w)"
  using assms
  by (auto simp: startup_def Let_def split: prod.splits option.splits if_splits)

lemma range_attach_attempts: "[0 ..< 5] = [0, 1, 2, 3, 4::nat]"
  by (simp add: upt_rec numeral_eq_Suc)

lemma attach_unfold:
  "attach os =
    (if shm_open os 0 \<noteq> - 1 then (Some (shm_open os 0), [Shm_Open 0])
     else if shm_open os 1 \<noteq> - 1 then
       (Some (shm_open os 1), [Shm_Open 0, Sleep (1 / 10), Shm_Open 1])
     else if shm_open os 2 \<noteq> - 1 then
       (Some (shm_open os 2),
        [Shm_Open 0, Sleep (1 / 10), Shm_Open 1, Sleep (3 / 20), Shm_Open 2])
     else if shm_open os 3 \<noteq> - 1 then
       (Some (shm_open os 3),
        [Shm_Open 0, Sleep (1 / 10), Shm_Open 1, Sleep (3 / 20), Shm_Open 2, Sleep (9 / 40),
         Shm_Open 3])
     else if shm_open os 4 \<noteq> - 1 then
       (Some (shm_open os 4),
        [Shm_Open 0, Sleep (1 / 10), Shm_Open 1, Sleep (3 / 20), Shm_Open 2, Sleep (9 / 40),
         Shm_Open 3, Sleep (27 / 80), Shm_Open 4])
     else
       (None,
        [Shm_Open 0, Sleep (1 / 10), Shm_Open 1, Sleep (3 / 20), Shm_Open 2, Sleep (9 / 40),
         Shm_Open 3, Sleep (27 / 80), Shm_Open 4]))"
  by (simp add: attach_def range_attach_attempts attach_attempts_def Let_def)

lemma backoff_events_unfold:
  "backoff_events 0 = []"
  "backoff_events 1 = [Shm_Open 0, Sleep (1 / 10)]"
  "backoff_events 2 = [Shm_Open 0, Sleep (1 / 10), Shm_Open 1, Sleep (3 / 20)]"
  "backoff_events 3 = [Shm_Open 0, Sleep (1 / 10), Shm_Open 1, Sleep (3 / 20), Shm_Open 2,
     Sleep (9 / 40)]"
  "backoff_events 4 = [Shm_Open 0, Sleep (1 / 10), Shm_Open 1, Sleep (3 / 20), Shm_Open 2,
     Sleep (9 / 40), Shm_Open 3, Sleep (27 / 80)]"
  by (simp_all add: backoff_events_def upt_rec numeral_eq_Suc)

lemma iterations_polling_loop:
  "iterations P env k w0 = Some w \<Longrightarrow> polling_loop P env w0 = polling_loop P env w"
proof (induction k arbitrary: w0)
  case 0
  then show ?case by simp
next
  case (Suc k)
  from Suc.prems obtain b w1 where r: "running w0" and i: "iteration P env w0 = Some (b, w1)"
    and nb: "\<not> b" and rest: "iterations P env k w1 = Some w"
    by (auto split: if_splits bind_splits)
  from r i nb have "polling_loop P env w0 = polling_loop P env w1"
    by (subst polling_loop.simps) simp
  with Suc.IH[OF rest] show ?case by simp
qed

lemma main_loop_polling:
  "startup P os = Inr w0 \<Longrightarrow> main_loop P os env = run_polling P env w0"
  by (simp add: main_loop_def)

lemma iterations_keep_sizes:
  "iterations P env k w0 = Some w \<Longrightarrow> sizes_read w = sizes_read w0"
proof (induction k arbitrary: w0)
  case 0
  then show ?case by simp
next
  case (Suc k)
  from Suc.prems obtain b w1 where i: "iteration P env w0 = Some (b, w1)"
    and rest: "iterations P env k w1 = Some w"
    by (auto split: if_splits bind_splits)
  from Suc.IH[OF rest] iteration_keeps_sizes[OF i] show ?case by simp
qed

lemma backoff_events_Suc_0: "backoff_events (Suc 0) = [Shm_Open 0, Sleep (1 / 10)]"
  using backoff_events_unfold(2) by simp

subsection \<open>A pass of the loop that sees command 1\<close>

text \<open>
  Such a pass calls \<^verbatim>\<open>send_data_to_creator\<close> with the result of the processing (a
  response, or one of the fixed error messages) and stores 0 in \<^verbatim>\<open>c_to_a_command\<close> once
  that call has returned, whether it reports success or failure. The call returns when
  the condition that ends its wait comes true after some number \<open>n\<close> of sleeps. The
  store of the command is then the last thing the pass does, and nothing before it in
  the pass stores a command.
\<close>

lemma data_ready_pass:
  assumes "c_to_a_command (shm w) = 1"
    and "process_data_from_creator P (c_to_a_data_len (shm w)) w = (response_bytes, w1)"
    and "r = (case response_bytes of Some x \<Rightarrow> x
              | None \<Rightarrow> ''Error during Creator data processing in Acceptor'')"
    and "wait_over r (now w1) (sleeps env n w1)"
  shows "\<exists>sent w2. send_data_to_creator P env r w1 = Some (sent, w2)
    \<and> iteration P env w = Some (False, store_c_to_a_command 0 w2)
    \<and> c_to_a_command (shm (store_c_to_a_command 0 w2)) = 0
    \<and> new_events w (store_c_to_a_command 0 w2)
        = new_events w w1 @ new_events w1 w2 @ [Store_c_to_a_command 0]
    \<and> (\<forall>c. Store_c_to_a_command c \<notin> set (new_events w w1 @ new_events w1 w2))"
proof -
  from send_returns[OF assms(4)] obtain sent w2
    where s: "send_data_to_creator P env r w1 = Some (sent, w2)" by blast
  from iteration_data_ready[OF assms(1,2)] assms(3) s
  have it: "iteration P env w = Some (False, store_c_to_a_command 0 w2)" by simp
  from process_events(1)[OF assms(2)] send_events(1)[OF s]
  have "trace (store_c_to_a_command 0 w2)
        = trace w @ (new_events w w1 @ new_events w1 w2 @ [Store_c_to_a_command 0])" by simp
  then have ev: "new_events w (store_c_to_a_command 0 w2)
        = new_events w w1 @ new_events w1 w2 @ [Store_c_to_a_command 0]"
    by (rule new_events_append)
  from process_events(2)[OF assms(2)] send_events(2)[OF s]
  have no: "\<forall>c. Store_c_to_a_command c \<notin> set (new_events w w1 @ new_events w1 w2)"
    by auto
  from s it ev no show ?thesis by simp
qed

text \<open>
  The same for a request of length 0: nothing is read and the processing block does not
  run, the response is the fixed acknowledgement, and the command is reset when the call
  that sends it has returned.
\<close>

lemma empty_message_pass:
  assumes "c_to_a_command (shm w) = 1" and "c_to_a_data_len (shm w) = 0"
  shows "process_data_from_creator P (c_to_a_data_len (shm w)) w
           = (Some ''Acknowledged empty Creator message'', w)
    \<and> iteration P env w =
        Option.bind (send_data_to_creator P env ''Acknowledged empty Creator message'' w)
          (\<lambda>r. Some (False, store_c_to_a_command 0 (snd r)))
    \<and> (\<forall>b w'. iteration P env w = Some (b, w') \<longrightarrow>
          Example_Processing \<notin> set (new_events w w')
          \<and> (\<forall>off n. Mmap_Read off n \<notin> set (new_events w w'))
          \<and> c_to_a_command (shm w') = 0)
    \<and> (wait_over ''Acknowledged empty Creator message'' (now w) (sleeps env n w) \<longrightarrow>
          (\<exists>sent w2. send_data_to_creator P env ''Acknowledged empty Creator message'' w
                        = Some (sent, w2)
             \<and> iteration P env w = Some (False, store_c_to_a_command 0 w2)))
    \<and> (mmap_obj w \<noteq> [] \<and> a_to_c_status (shm w) = 0 \<and> 34 \<le> ACTUAL_A2C_BUFFER_SIZE w
        \<and> SHM_CONTROL_BLOCK_SIZE P + ACTUAL_C2A_BUFFER_SIZE w + 34 \<le> length (mmap_obj w)
        \<and> \<not> write_raises (env (tick w))
        \<longrightarrow> iteration P env w =
              Some (False, store_c_to_a_command 0
                (write_response P env ''Acknowledged empty Creator message'' w)))"
proof -
  let ?msg = "''Acknowledged empty Creator message''"
  from assms(2) have p: "process_data_from_creator P (c_to_a_data_len (shm w)) w = (Some ?msg, w)"
    by (simp add: process_empty)
  from iteration_data_ready[OF assms(1) p]
  have it: "iteration P env w =
        Option.bind (send_data_to_creator P env ?msg w)
          (\<lambda>r. Some (False, store_c_to_a_command 0 (snd r)))" by simp
  have quiet: "Example_Processing \<notin> set (new_events w w')
          \<and> (\<forall>off n. Mmap_Read off n \<notin> set (new_events w w'))
          \<and> c_to_a_command (shm w') = 0"
    if "iteration P env w = Some (b, w')" for b w'
  proof -
    from that it obtain sent w2 where s: "send_data_to_creator P env ?msg w = Some (sent, w2)"
      and w': "w' = store_c_to_a_command 0 w2"
      by (auto split: bind_splits)
    from send_events(1)[OF s] w'
    have "trace w' = trace w @ (new_events w w2 @ [Store_c_to_a_command 0])" by simp
    then have "new_events w w' = new_events w w2 @ [Store_c_to_a_command 0]"
      by (rule new_events_append)
    with send_events(2)[OF s] w' show ?thesis by auto
  qed
  have live: "\<exists>sent w2. send_data_to_creator P env ?msg w = Some (sent, w2)
             \<and> iteration P env w = Some (False, store_c_to_a_command 0 w2)"
    if "wait_over ?msg (now w) (sleeps env n w)"
  proof -
    from send_returns[OF that] obtain sent w2
      where "send_data_to_creator P env ?msg w = Some (sent, w2)" by blast
    with it show ?thesis by simp
  qed
  have ready: "iteration P env w =
              Some (False, store_c_to_a_command 0 (write_response P env ?msg w))"
    if "mmap_obj w \<noteq> [] \<and> a_to_c_status (shm w) = 0 \<and> 34 \<le> ACTUAL_A2C_BUFFER_SIZE w
        \<and> SHM_CONTROL_BLOCK_SIZE P + ACTUAL_C2A_BUFFER_SIZE w + 34 \<le> length (mmap_obj w)
        \<and> \<not> write_raises (env (tick w))"
  proof -
    from that have "send_data_to_creator P env ?msg w
      = Some (True, write_response P env ?msg w)"
      by (intro send_ready_written) simp_all
    with it show ?thesis by simp
  qed
  from p it quiet live ready show ?thesis by blast
qed

lemma polling_loop_None:
  "running w \<Longrightarrow> iteration P env w = None \<Longrightarrow> polling_loop P env w = None"
  by (subst polling_loop.simps) simp

subsection \<open>The claims\<close>

text \<open>
  C1. The size of the control block. With the padding array of the source the structure is
  128 bytes long where \<^verbatim>\<open>c_size_t\<close> is four bytes wide. Where it is eight bytes wide, each
  of the two \<^verbatim>\<open>c_int32\<close> fields is followed by four bytes of alignment, which the length of
  the padding array does not count, and the structure is 136 bytes long.
\<close>

theorem control_block_size:
  "sizeof_SharedIPCBidirectional 8 = 136 \<and> sizeof_SharedIPCBidirectional 4 = 128"
  by (simp add: sizeof_SharedIPCBidirectional_def SharedIPCBidirectional_fields_def
      struct_sizeof_def align_up_def)

text \<open>
  C3. A response longer than the A2C buffer: the wait for the Creator on line 173 reads no
  clock and has no timeout, unlike the wait of the other branch. With the status left
  at 1 by a Creator that has stalled and no shutdown requested, \<^verbatim>\<open>send_data_to_creator\<close>
  never returns: here for the 400 bytes of the example response and an A2C buffer of
  64 bytes.
\<close>

theorem oversize_wait_never_ends:
  "send_data_to_creator example_platform silent_env (replicate 400 (CHR ''x''))
     (example_world 1 10 1 64 64) = None"
proof (rule send_oversize_never_returns)
  show "mmap_obj (example_world 1 10 1 64 64) \<noteq> []"
    by simp
  show "length (replicate 400 (CHR ''x'')) > ACTUAL_A2C_BUFFER_SIZE (example_world 1 10 1 64 64)"
    by simp
  show "a_to_c_status (shm (sleeps silent_env n (example_world 1 10 1 64 64))) \<noteq> 0
        \<and> running (sleeps silent_env n (example_world 1 10 1 64 64))" for n
    by (simp add: silent_sleeps)
qed




text \<open>
  C4. A response that \<^verbatim>\<open>send_data_to_creator\<close> reports as sent has a length within the A2C
  buffer, and after the wait, which ends with the status at 0, the Acceptor does exactly
  four things in this order: it writes the bytes, flushes, stores the length of the
  response in \<^verbatim>\<open>a_to_c_data_len\<close> and only then stores 1 in \<^verbatim>\<open>a_to_c_status\<close>. Hence in
  none of the states that the control block goes through is the status 1 while the length
  is not yet that of the response.
\<close>

theorem length_before_status:
  assumes "send_data_to_creator P env data_bytes w = Some (True, w')"
  shows "\<exists>n b. a_to_c_status (shm (sleeps env n w)) = 0
    \<and> length data_bytes \<le> ACTUAL_A2C_BUFFER_SIZE w
    \<and> new_events w w' =
        [Mmap_Write (SHM_CONTROL_BLOCK_SIZE P + ACTUAL_C2A_BUFFER_SIZE w) data_bytes,
         Mmap_Flush b,
         Store_a_to_c_data_len (length data_bytes),
         Store_a_to_c_status 1]
    \<and> shm w' = shm_after (new_events w w') (shm (sleeps env n w))
    \<and> (\<forall>k \<le> length (new_events w w').
          a_to_c_status (shm_after (take k (new_events w w')) (shm (sleeps env n w))) = 1 \<longrightarrow>
          a_to_c_data_len (shm_after (take k (new_events w w')) (shm (sleeps env n w)))
            = length data_bytes)"
proof -
  from assms obtain n where n: "a_to_c_status (shm (sleeps env n w)) = 0"
    "w' = write_response P env data_bytes (sleeps env n w)"
    "length data_bytes \<le> ACTUAL_A2C_BUFFER_SIZE w"
    by (rule send_written)
  let ?w1 = "sleeps env n w"
  let ?evs = "[Mmap_Write (SHM_CONTROL_BLOCK_SIZE P + ACTUAL_C2A_BUFFER_SIZE w) data_bytes,
         Mmap_Flush (\<not> flush_raises (env (tick ?w1))),
         Store_a_to_c_data_len (length data_bytes),
         Store_a_to_c_status 1]"
  from n(2) have "trace w' = trace w @ ?evs" by simp
  then have evs: "new_events w w' = ?evs" by (rule new_events_append)
  from n(2) have final: "shm w' = shm_after ?evs (shm ?w1)"
    by (simp add: shm_after_def)
  have steps: "a_to_c_status (shm_after (take k ?evs) (shm ?w1)) = 1 \<longrightarrow>
          a_to_c_data_len (shm_after (take k ?evs) (shm ?w1)) = length data_bytes"
    if "k \<le> length ?evs" for k
  proof -
    from that have "k = 0 \<or> k = 1 \<or> k = 2 \<or> k = 3 \<or> k = 4" by auto
    with n(1) show ?thesis by (auto simp: shm_after_def)
  qed
  from n(1,3) evs final steps show ?thesis by (metis (no_types, lifting))
qed

theorem length_before_status_witness:
  "send_data_to_creator example_platform silent_env ''pong'' (example_world 1 10 0 64 64)
     = Some (True, write_response example_platform silent_env ''pong'' (example_world 1 10 0 64 64))
   \<and> (\<exists>b. new_events (example_world 1 10 0 64 64)
            (write_response example_platform silent_env ''pong'' (example_world 1 10 0 64 64))
          = [Mmap_Write 200 ''pong'', Mmap_Flush b, Store_a_to_c_data_len 4,
             Store_a_to_c_status 1])"
proof -
  let ?w = "example_world 1 10 0 64 64"
  have s: "send_data_to_creator example_platform silent_env ''pong'' ?w
     = Some (True, write_response example_platform silent_env ''pong'' ?w)"
    by (rule send_ready_written) simp_all
  from length_before_status[OF s] s show ?thesis by auto
qed

text \<open>
  C5. The reset of \<^verbatim>\<open>c_to_a_command\<close> on line 354 comes after the call of
  \<^verbatim>\<open>send_data_to_creator\<close> and is reached only when that call returns. For a response
  longer than the A2C buffer the call waits on line 173 without a timeout (see C3): with
  a request of 10 bytes, the 400 bytes of the example response, an A2C buffer of 64 bytes
  and the status left at 1 by a Creator that has stalled, the pass never ends, and so
  neither does the loop: the command stays 1 and is never reset. On every pass whose
  respond attempt returns, the reset is the last store (\<open>data_ready_pass\<close>).
\<close>

theorem data_ready_never_acknowledged:
  "c_to_a_command (shm (example_world 1 10 1 64 64)) = 1
   \<and> running (example_world 1 10 1 64 64)
   \<and> iteration example_platform silent_env (example_world 1 10 1 64 64) = None
   \<and> polling_loop example_platform silent_env (example_world 1 10 1 64 64) = None"
proof -
  let ?P = example_platform and ?v = "example_world 1 10 1 64 64"
  let ?v1 = "log Example_Processing (log (Mmap_Read 136 10) ?v)"
  let ?r = "replicate 400 (CHR ''x'')"
  have c: "c_to_a_command (shm ?v) = 1" by simp
  have p: "process_data_from_creator ?P (c_to_a_data_len (shm ?v)) ?v = (Some ?r, ?v1)"
    by (simp add: process_data_from_creator_def get_buffer_view_def example_platform_def
        SHM_CONTROL_BLOCK_SIZE_def sizeof_SharedIPCBidirectional_def
        SharedIPCBidirectional_fields_def struct_sizeof_def align_up_def)
  have s: "send_data_to_creator ?P silent_env ?r ?v1 = None"
  proof (rule send_oversize_never_returns)
    show "mmap_obj ?v1 \<noteq> []" by simp
    show "length ?r > ACTUAL_A2C_BUFFER_SIZE ?v1" by simp
    show "a_to_c_status (shm (sleeps silent_env n ?v1)) \<noteq> 0
          \<and> running (sleeps silent_env n ?v1)" for n
      by (simp add: silent_sleeps)
  qed
  from iteration_data_ready[OF c p, of silent_env] s
  have i: "iteration ?P silent_env ?v = None" by simp
  have r: "running ?v" by simp
  from c r i polling_loop_None[OF r i] show ?thesis by simp
qed



text \<open>
  C10. A request of length 0 is answered without reading the mapping and without running
  the processing block, with the 34 bytes of the fixed acknowledgement
  (\<open>empty_message_pass\<close>). The reset of the command still waits for
  \<^verbatim>\<open>send_data_to_creator\<close> to return: with an A2C buffer of 16 bytes the acknowledgement is
  longer than the buffer, the call waits on line 173 without a timeout (see C3), and with
  the status left at 1 by a Creator that has stalled the pass never ends and the command
  is never reset.
\<close>

theorem empty_message_never_acknowledged:
  "c_to_a_command (shm (example_world 1 0 1 64 16)) = 1
   \<and> c_to_a_data_len (shm (example_world 1 0 1 64 16)) = 0
   \<and> process_data_from_creator example_platform 0 (example_world 1 0 1 64 16)
       = (Some ''Acknowledged empty Creator message'', example_world 1 0 1 64 16)
   \<and> iteration example_platform silent_env (example_world 1 0 1 64 16) = None
   \<and> polling_loop example_platform silent_env (example_world 1 0 1 64 16) = None"
proof -
  let ?P = example_platform and ?v = "example_world 1 0 1 64 16"
  let ?msg = "''Acknowledged empty Creator message''"
  have c: "c_to_a_command (shm ?v) = 1" by simp
  have p: "process_data_from_creator ?P (c_to_a_data_len (shm ?v)) ?v = (Some ?msg, ?v)"
    by (simp add: process_empty)
  have s: "send_data_to_creator ?P silent_env ?msg ?v = None"
  proof (rule send_oversize_never_returns)
    show "mmap_obj ?v \<noteq> []" by simp
    show "length ?msg > ACTUAL_A2C_BUFFER_SIZE ?v" by simp
    show "a_to_c_status (shm (sleeps silent_env n ?v)) \<noteq> 0
          \<and> running (sleeps silent_env n ?v)" for n
      by (simp add: silent_sleeps)
  qed
  from iteration_data_ready[OF c p, of silent_env] s
  have i: "iteration ?P silent_env ?v = None" by simp
  have r: "running ?v" by simp
  from c r i polling_loop_None[OF r i] process_empty[of ?P ?v] show ?thesis by simp
qed

text \<open>
  C6. Let the polling loop, started in \<open>w0\<close>, begin a pass in a state \<open>w\<close> with
  \<^verbatim>\<open>running\<close> true and the command 99. That pass stores 0 in \<^verbatim>\<open>c_to_a_command\<close>, clears
  \<^verbatim>\<open>running\<close> and leaves the loop, whatever the environment does from then on (\<open>env'\<close>):
  the loop ends in that state, in which the field \<^verbatim>\<open>c_to_a_command\<close> is 0 and the rest of
  the control block and the mapping are as they were, that store is the only thing the
  pass does, the \<^verbatim>\<open>finally\<close>
  block closes the mapping (or fails to, see C8) and the descriptor, and the process,
  started by \<^verbatim>\<open>main_loop\<close>, ends with exit status 0.
\<close>

theorem shutdown_command:
  assumes "startup P os = Inr w0"
    and "iterations P env k w0 = Some w"
    and "running w" and "c_to_a_command (shm w) = 99"
  shows "iteration P env' w = Some (True, (store_c_to_a_command 0 w)\<lparr>running := False\<rparr>)
    \<and> polling_loop P env' w = Some ((store_c_to_a_command 0 w)\<lparr>running := False\<rparr>)
    \<and> polling_loop P env w0 = Some ((store_c_to_a_command 0 w)\<lparr>running := False\<rparr>)
    \<and> c_to_a_command (shm ((store_c_to_a_command 0 w)\<lparr>running := False\<rparr>)) = 0
    \<and> shm ((store_c_to_a_command 0 w)\<lparr>running := False\<rparr>) = (shm w)\<lparr>c_to_a_command := 0\<rparr>
    \<and> \<not> running ((store_c_to_a_command 0 w)\<lparr>running := False\<rparr>)
    \<and> mmap_obj ((store_c_to_a_command 0 w)\<lparr>running := False\<rparr>) = mmap_obj w
    \<and> new_events w ((store_c_to_a_command 0 w)\<lparr>running := False\<rparr>) = [Store_c_to_a_command 0]
    \<and> main_loop P os env =
        Some (Exit 0
          (trace w @ [Store_c_to_a_command 0]
           @ [if struct_is_copy w then Mmap_Close else Mmap_Close_BufferError]
           @ close_fd P (shm_fd w)))"
proof -
  let ?w' = "(store_c_to_a_command 0 w)\<lparr>running := False\<rparr>"
  from assms(4) have it: "iteration P e w = Some (True, ?w')" for e
    by (simp add: iteration_def)
  with assms(3) have loop: "polling_loop P e w = Some ?w'" for e
    by (subst polling_loop.simps) simp
  from iterations_polling_loop[OF assms(2)] loop
  have whole: "polling_loop P env w0 = Some ?w'" by simp
  from iterations_keep_sizes[OF assms(2)] startup_world(5)[OF assms(1)]
  have ne: "mmap_obj w \<noteq> []" by (auto simp: sizes_read_def)
  from main_loop_polling[OF assms(1)] whole ne
  have "main_loop P os env =
        Some (Exit 0
          (trace w @ [Store_c_to_a_command 0]
           @ [if struct_is_copy w then Mmap_Close else Mmap_Close_BufferError]
           @ close_fd P (shm_fd w)))"
    by (simp add: run_polling_def cleanup_def)
  moreover have "new_events w ?w' = [Store_c_to_a_command 0]"
    by (rule new_events_append) simp
  ultimately show ?thesis using it loop whole by simp
qed

theorem shutdown_command_witness:
  "main_loop example_platform (example_os 64 64)
     (\<lambda>k. (silent_env k)\<lparr>peer_command := Some (if k = 0 then 99 else 1)\<rparr>)
   = Some (Exit 0 [Shm_Open 0, Store_c_to_a_command 0, Mmap_Close_BufferError, Fd_Close 3])
   \<and> c_to_a_command (shm (sleep
        (\<lambda>k. (silent_env k)\<lparr>peer_command := Some (if k = 0 then 99 else 1)\<rparr>)
        (example_world 0 0 0 64 64))) = 99
   \<and> map_option (c_to_a_command \<circ> shm) (polling_loop example_platform
        (\<lambda>k. (silent_env k)\<lparr>peer_command := Some (if k = 0 then 99 else 1)\<rparr>)
        (example_world 0 0 0 64 64)) = Some 0"
proof -
  let ?P = example_platform and ?os = "example_os 64 64"
  let ?env = "\<lambda>k. (silent_env k)\<lparr>peer_command := Some (if k = 0 then 99 else 1)\<rparr>"
  let ?start = "(example_world 0 0 0 64 64)"
  let ?seen = "sleep ?env ?start"
  have st: "startup ?P ?os = Inr ?start"
    by (simp add: startup_def attach_unfold example_os_def example_world_def Let_def)
  have i: "iterations ?P ?env 1 ?start = Some ?seen"
    by (simp add: iteration_def)
  have r: "running ?seen" by (simp add: sleep_def Let_def)
  have c: "c_to_a_command (shm ?seen) = 99" by (simp add: sleep_def Let_def peer_stores_def)
  let ?final = "(store_c_to_a_command 0 ?seen)\<lparr>running := False\<rparr>"
  note t = shutdown_command[OF st i r c, of ?env]
  from t have "main_loop ?P ?os ?env =
        Some (Exit 0
          (trace ?seen @ [Store_c_to_a_command 0]
           @ [if struct_is_copy ?seen then Mmap_Close else Mmap_Close_BufferError]
           @ close_fd ?P (shm_fd ?seen)))" by blast
  then have m: "main_loop ?P ?os ?env
    = Some (Exit 0 [Shm_Open 0, Store_c_to_a_command 0, Mmap_Close_BufferError, Fd_Close 3])"
    by (simp add: close_fd_def example_platform_def)
  from t have l: "polling_loop ?P ?env ?start = Some ?final" by blast
  from t have f: "c_to_a_command (shm ?final) = 0" by blast
  from l have "map_option (c_to_a_command \<circ> shm) (polling_loop ?P ?env ?start)
    = Some (c_to_a_command (shm ?final))" by simp
  with f have g: "map_option (c_to_a_command \<circ> shm) (polling_loop ?P ?env ?start) = Some 0"
    by simp
  from m c g show ?thesis by blast
qed

text \<open>
  C7. The attachment loop calls \<^verbatim>\<open>shm_open\<close> at most five times. When the first \<open>N - 1\<close>
  calls fail and call number \<open>N\<close> succeeds, for \<open>N\<close> from 1 to 5, the loop ends at that
  call with its descriptor, having slept after each of the failed calls: 0.1 s after
  the first and 1.5 times the sleep before after each next one. When all five calls fail
  the process exits with status 1, after four sleeps and with nothing else done.
\<close>

theorem attach_retry:
  "length (filter is_shm_open (snd (attach os))) \<le> 5
   \<and> (1 \<le> N \<and> N \<le> 5 \<and> (\<forall>i < N - 1. shm_open os i = - 1) \<and> shm_open os (N - 1) \<noteq> - 1
       \<longrightarrow> attach os = (Some (shm_open os (N - 1)), backoff_events (N - 1) @ [Shm_Open (N - 1)]))
   \<and> ((\<forall>i < 5. shm_open os i = - 1)
       \<longrightarrow> attach os = (None, backoff_events 4 @ [Shm_Open 4])
         \<and> main_loop P os env = Some (Exit 1 (backoff_events 4 @ [Shm_Open 4])))"
proof -
  have count: "length (filter is_shm_open (snd (attach os))) \<le> 5"
    by (simp add: attach_unfold)
  have found: "attach os = (Some (shm_open os (N - 1)), backoff_events (N - 1) @ [Shm_Open (N - 1)])"
    if h: "1 \<le> N \<and> N \<le> 5 \<and> (\<forall>i < N - 1. shm_open os i = - 1) \<and> shm_open os (N - 1) \<noteq> - 1"
  proof -
    from h have "N = 1 \<or> N = 2 \<or> N = 3 \<or> N = 4 \<or> N = 5" by auto
    then show ?thesis
    proof (elim disjE)
      assume "N = 1"
      with h show ?thesis by (simp add: attach_unfold backoff_events_unfold backoff_events_Suc_0)
    next
      assume n: "N = 2"
      with h have "shm_open os 0 = - 1" "shm_open os 1 \<noteq> - 1" by simp_all
      with n show ?thesis by (simp add: attach_unfold backoff_events_unfold backoff_events_Suc_0)
    next
      assume n: "N = 3"
      with h have "shm_open os 0 = - 1" "shm_open os 1 = - 1" "shm_open os 2 \<noteq> - 1"
        by simp_all
      with n show ?thesis by (simp add: attach_unfold backoff_events_unfold backoff_events_Suc_0)
    next
      assume n: "N = 4"
      with h have "shm_open os 0 = - 1" "shm_open os 1 = - 1" "shm_open os 2 = - 1"
        "shm_open os 3 \<noteq> - 1" by simp_all
      with n show ?thesis by (simp add: attach_unfold backoff_events_unfold backoff_events_Suc_0)
    next
      assume n: "N = 5"
      with h have "shm_open os 0 = - 1" "shm_open os 1 = - 1" "shm_open os 2 = - 1"
        "shm_open os 3 = - 1" "shm_open os 4 \<noteq> - 1" by simp_all
      with n show ?thesis by (simp add: attach_unfold backoff_events_unfold backoff_events_Suc_0)
    qed
  qed
  have never: "attach os = (None, backoff_events 4 @ [Shm_Open 4])
         \<and> main_loop P os env = Some (Exit 1 (backoff_events 4 @ [Shm_Open 4]))"
    if h: "\<forall>i < 5. shm_open os i = - 1"
  proof -
    from h have "shm_open os 0 = - 1" "shm_open os 1 = - 1" "shm_open os 2 = - 1"
      "shm_open os 3 = - 1" "shm_open os 4 = - 1" by simp_all
    then have a: "attach os = (None, backoff_events 4 @ [Shm_Open 4])"
      by (simp add: attach_unfold backoff_events_unfold backoff_events_Suc_0)
    then show ?thesis by (simp add: main_loop_def startup_def)
  qed
  from count found never show ?thesis by blast
qed

theorem attach_retry_witness:
  "attach ((example_os 64 64)\<lparr>shm_open := (\<lambda>attempt. if attempt < 2 then - 1 else 7)\<rparr>)
     = (Some 7, [Shm_Open 0, Sleep (1 / 10), Shm_Open 1, Sleep (3 / 20), Shm_Open 2])
   \<and> main_loop example_platform ((example_os 64 64)\<lparr>shm_open := (\<lambda>attempt. - 1)\<rparr>) silent_env
     = Some (Exit 1 [Shm_Open 0, Sleep (1 / 10), Shm_Open 1, Sleep (3 / 20), Shm_Open 2,
          Sleep (9 / 40), Shm_Open 3, Sleep (27 / 80), Shm_Open 4])"
proof -
  let ?late = "(example_os 64 64)\<lparr>shm_open := (\<lambda>attempt. if attempt < 2 then - 1 else 7)\<rparr>"
  let ?never = "(example_os 64 64)\<lparr>shm_open := (\<lambda>attempt. - 1)\<rparr>"
  have l: "1 \<le> (3::nat) \<and> (3::nat) \<le> 5 \<and> (\<forall>i < 3 - 1. shm_open ?late i = - 1)
      \<and> shm_open ?late (3 - 1) \<noteq> - 1" by simp
  have n: "\<forall>i < 5. shm_open ?never i = - 1" by simp
  from attach_retry[of ?late 3] l
  have 1: "attach ?late = (Some (shm_open ?late (3 - 1)), backoff_events (3 - 1) @ [Shm_Open (3 - 1)])"
    by blast
  from attach_retry[of ?never 3 example_platform silent_env] n
  have 2: "main_loop example_platform ?never silent_env
           = Some (Exit 1 (backoff_events 4 @ [Shm_Open 4]))" by blast
  from 1 2 show ?thesis by (simp add: backoff_events_unfold)
qed

text \<open>
  C8. A control block whose \<^verbatim>\<open>defined_c2a_buffer_size\<close> is 0 makes the startup raise
  \<^verbatim>\<open>ValueError\<close>; the polling loop is not entered and the exit status is 1. The handler
  calls \<^verbatim>\<open>mmap_obj.close()\<close> first, which raises \<^verbatim>\<open>BufferError\<close> while the structure made
  by \<^verbatim>\<open>from_buffer\<close> is alive: nothing catches it there, so neither the mapping nor the
  descriptor is closed by the script. Only when \<^verbatim>\<open>shm_struct\<close> is the copy made by
  \<^verbatim>\<open>from_buffer_copy\<close> are both closed before \<^verbatim>\<open>sys.exit(1)\<close>.
\<close>

theorem zero_size_startup:
  "main_loop example_platform (example_os 0 64) silent_env
     = Some (Exit 1 [Shm_Open 0, Mmap_Close_BufferError])
   \<and> main_loop example_platform ((example_os 0 64)\<lparr>from_buffer_type_error := True\<rparr>) silent_env
     = Some (Exit 1 [Shm_Open 0, Mmap_Close, Fd_Close 3])"
  by (simp add: main_loop_def startup_def attach_unfold example_os_def Let_def close_fd_def
      example_platform_def SHM_CONTROL_BLOCK_SIZE_def sizeof_SharedIPCBidirectional_def
      SharedIPCBidirectional_fields_def struct_sizeof_def align_up_def)

end
